theory Spec2Isabelle
  imports Main
begin

section \<open>Python values\<close>

text \<open>
  A Python \<open>str\<close> is a sequence of Unicode code points, so it is a list of naturals here
  and its length counts code points. \<open>ascii\<close> writes an ASCII literal of the source.
  The code points are taken to be the ones UTF-8 encodes: a lone surrogate, which the
  writer of \<open>save_books\<close> rejects, is not part of the model.
\<close>

type_synonym pystr = "nat list"

definition ascii :: "string \<Rightarrow> pystr" where
  "ascii s = map of_char s"

text \<open>
  The values a record field, a JSON member or a search criterion holds: \<open>None\<close>, a
  \<open>bool\<close>, an \<open>int\<close> (unbounded) or a \<open>str\<close>. Floats, lists and dicts as field values are
  not part of the model.
\<close>

datatype pyval = PNone | PBool bool | PInt int | PStr pystr

text \<open>The exceptions the modelled code can raise.\<close>

datatype error =
    KeyError pystr
  | TypeError
  | ValueError
  | JSONDecodeError
  | UnicodeDecodeError

subsection \<open>\<open>str(x)\<close>\<close>



subsection \<open>\<open>str.lower()\<close>\<close>



subsection \<open>\<open>int(x)\<close>\<close>








subsection \<open>\<open>x == n\<close> for an \<open>int\<close> n\<close>

text \<open>A \<open>bool\<close> is an \<open>int\<close> in Python (\<open>True == 1\<close>); \<open>None\<close> and a \<open>str\<close> equal no \<open>int\<close>.\<close>

fun py_eq_int :: "pyval \<Rightarrow> int \<Rightarrow> bool" where
  "py_eq_int (PInt i) n = (i = n)"
| "py_eq_int (PBool b) n = ((if b then 1 else 0) = n)"
| "py_eq_int PNone n = False"
| "py_eq_int (PStr s) n = False"

section \<open>\<open>class Book\<close>\<close>

text \<open>
  The five attributes of a \<open>Book\<close> object. Python checks no annotation, so each attribute
  holds any value. The attribute \<open>id\<close> is the field \<open>id'\<close>.
\<close>

record book =
  id' :: pyval
  title :: pyval
  author :: pyval
  year :: pyval
  status :: pyval

text \<open>
  The two status texts of the source, as code points: \<open>v_nalichii\<close> is the Russian for
  "in stock" (U+0432 U+0020 U+043D U+0430 U+043B U+0438 U+0447 U+0438 U+0438) and
  \<open>vydana\<close> for "lent out" (U+0432 U+044B U+0434 U+0430 U+043D U+0430).
\<close>

definition v_nalichii :: pystr where
  "v_nalichii = [1074, 32, 1085, 1072, 1083, 1080, 1095, 1080, 1080]"

definition vydana :: pystr where
  "vydana = [1074, 1099, 1076, 1072, 1085, 1072]"

text \<open>
  \<open>Book.__init__\<close>. The first argument is \<open>self\<close>, as the address of the new object:
  \<open>id(self)\<close> is that address, which CPython keeps distinct among the objects alive at the
  same time and hands out again once an object is freed.
\<close>

definition Book :: "nat \<Rightarrow> pyval \<Rightarrow> pyval \<Rightarrow> pyval \<Rightarrow> book" where
  "Book self ttl auth yr =
     \<lparr>id' = PInt (int self), title = ttl, author = auth, year = yr,
      status = PStr v_nalichii\<rparr>"

type_synonym pydict = "(pystr \<times> pyval) list"

definition to_dict :: "book \<Rightarrow> pydict" where
  "to_dict self =
     [(ascii ''id'', id' self),
      (ascii ''title'', title self),
      (ascii ''author'', author self),
      (ascii ''year'', year self),
      (ascii ''status'', status self)]"

text \<open>
  An element of the loaded JSON array: an object (a \<open>dict\<close>), or any other JSON value,
  which raises \<open>TypeError\<close> when subscripted with a \<open>str\<close>.
\<close>

datatype elem = EObj pydict | ENotObj

definition getitem :: "pydict \<Rightarrow> pystr \<Rightarrow> error + pyval" where
  "getitem d k = (case map_of d k of None \<Rightarrow> Inl (KeyError k) | Some v \<Rightarrow> Inr v)"

text \<open>
  \<open>Book.from_dict\<close>: the subscripts are evaluated in the order title, author, year, id,
  status, and the first missing key raises.
\<close>

fun from_dict :: "nat \<Rightarrow> elem \<Rightarrow> error + book" where
  "from_dict self ENotObj = Inl TypeError"
| "from_dict self (EObj data) =
     (case getitem data (ascii ''title'') of Inl e \<Rightarrow> Inl e | Inr ttl \<Rightarrow>
     (case getitem data (ascii ''author'') of Inl e \<Rightarrow> Inl e | Inr auth \<Rightarrow>
     (case getitem data (ascii ''year'') of Inl e \<Rightarrow> Inl e | Inr yr \<Rightarrow>
     (let book = Book self ttl auth yr in
     (case getitem data (ascii ''id'') of Inl e \<Rightarrow> Inl e | Inr i \<Rightarrow>
     (case getitem data (ascii ''status'') of Inl e \<Rightarrow> Inl e | Inr st \<Rightarrow>
        Inr (book\<lparr>id' := i, status := st\<rparr>)))))))"

section \<open>\<open>class Library\<close>\<close>

text \<open>
  The backing file, as \<open>json.load\<close> sees it: bytes that are not UTF-8, text that is not
  JSON, or a JSON document. Iterating the document gives the elements of an array, the
  keys of an object or the characters of a string (none of them a \<open>dict\<close>); \<open>null\<close>,
  a boolean and a number are not iterable. The JSON codec itself is taken as given:
  what \<open>json.dump\<close> writes, \<open>json.load\<close> reads back.
\<close>

datatype doc = DArr "elem list" | DObj "pystr list" | DStr pystr | DScalar

datatype backing_file = NotUtf8 | NotJson | Json doc

type_synonym fs = "pystr \<Rightarrow> backing_file option"

record library =
  file_path :: pystr
  books :: "book list"

definition iterate :: "doc \<Rightarrow> error + elem list" where
  "iterate data =
     (case data of
        DArr es \<Rightarrow> Inr es
      | DObj ks \<Rightarrow> Inr (map (\<lambda>k. ENotObj) ks)
      | DStr s \<Rightarrow> Inr (map (\<lambda>c. ENotObj) s)
      | DScalar \<Rightarrow> Inl TypeError)"

text \<open>
  The comprehension of \<open>load_books\<close>: \<open>alloc i\<close> is the address of the i-th \<open>Book\<close> it
  creates; the first element that raises ends it.
\<close>

fun from_dicts :: "(nat \<Rightarrow> nat) \<Rightarrow> nat \<Rightarrow> elem list \<Rightarrow> error + book list" where
  "from_dicts alloc i [] = Inr []"
| "from_dicts alloc i (d # ds) =
     (case from_dict (alloc i) d of Inl e \<Rightarrow> Inl e
      | Inr b \<Rightarrow>
          (case from_dicts alloc (Suc i) ds of Inl e \<Rightarrow> Inl e | Inr bs \<Rightarrow> Inr (b # bs)))"

definition load_books :: "(nat \<Rightarrow> nat) \<Rightarrow> library \<Rightarrow> fs \<Rightarrow> error + library" where
  "load_books alloc self files =
     (case files (file_path self) of
        None \<Rightarrow> Inr (self\<lparr>books := []\<rparr>)
      | Some NotUtf8 \<Rightarrow> Inl UnicodeDecodeError
      | Some NotJson \<Rightarrow> Inl JSONDecodeError
      | Some (Json data) \<Rightarrow>
          (case iterate data of Inl e \<Rightarrow> Inl e
           | Inr ds \<Rightarrow>
               (case from_dicts alloc 0 ds of Inl e \<Rightarrow> Inl e
                | Inr bs \<Rightarrow> Inr (self\<lparr>books := bs\<rparr>))))"

text \<open>\<open>Library.__init__\<close>.\<close>

definition Library :: "(nat \<Rightarrow> nat) \<Rightarrow> pystr \<Rightarrow> fs \<Rightarrow> error + library" where
  "Library alloc path files = load_books alloc \<lparr>file_path = path, books = []\<rparr> files"

text \<open>
  \<open>save_books\<close> replaces the file. The write itself is taken to succeed: a write that
  fails (a full disk, a denied permission) raises out of the method and is not modelled.
\<close>

definition save_books :: "library \<Rightarrow> fs \<Rightarrow> fs" where
  "save_books self files =
     files(file_path self \<mapsto> Json (DArr (map (\<lambda>book. EObj (to_dict book)) (books self))))"

text \<open>
  The mutating methods return nothing and print one message; the message is the outcome
  here. \<open>Added\<close> carries the id it prints.
\<close>

datatype outcome = Added pyval | Deleted | NotFound | StatusChanged | InvalidStatus

definition add_book ::
  "nat \<Rightarrow> pyval \<Rightarrow> pyval \<Rightarrow> pyval \<Rightarrow> library \<times> fs \<Rightarrow> outcome \<times> library \<times> fs" where
  "add_book a ttl auth yr = (\<lambda>(self, files).
     let new_book = Book a ttl auth yr;
         self' = self\<lparr>books := books self @ [new_book]\<rparr>
     in (Added (id' new_book), self', save_books self' files))"

text \<open>
  \<open>delete_book\<close>: the loop stops at the first book whose id equals \<open>book_id\<close>;
  \<open>list.remove\<close> then takes out the first occurrence of that book.
\<close>

definition delete_book :: "int \<Rightarrow> library \<times> fs \<Rightarrow> outcome \<times> library \<times> fs" where
  "delete_book book_id = (\<lambda>(self, files).
     case find (\<lambda>book. py_eq_int (id' book) book_id) (books self) of
       Some book \<Rightarrow>
         let self' = self\<lparr>books := remove1 book (books self)\<rparr>
         in (Deleted, self', save_books self' files)
     | None \<Rightarrow> (NotFound, self, files))"

text \<open>
  The loop of \<open>update_status\<close>: the first book whose id equals \<open>book_id\<close> gets the new
  status; \<open>None\<close> when the loop ends without a match.
\<close>

fun set_status :: "int \<Rightarrow> pyval \<Rightarrow> book list \<Rightarrow> book list option" where
  "set_status book_id st [] = None"
| "set_status book_id st (book # rest) =
     (if py_eq_int (id' book) book_id then Some (book\<lparr>status := st\<rparr> # rest)
      else map_option ((#) book) (set_status book_id st rest))"

definition update_status :: "int \<Rightarrow> pyval \<Rightarrow> library \<times> fs \<Rightarrow> outcome \<times> library \<times> fs" where
  "update_status book_id st = (\<lambda>(self, files).
     if st \<notin> set [PStr v_nalichii, PStr vydana] then (InvalidStatus, self, files)
     else
       case set_status book_id st (books self) of
         Some bs \<Rightarrow>
           let self' = self\<lparr>books := bs\<rparr> in (StatusChanged, self', save_books self' files)
       | None \<Rightarrow> (NotFound, self, files))"

subsection \<open>\<open>search_books\<close>\<close>





section \<open>The specification's reading of a criterion\<close>

text \<open>
  The field names a criterion may use, and the closed mapping from a name to the field of
  a record.
\<close>

definition record_fields :: "pystr list" where
  "record_fields =
     [ascii ''id'', ascii ''title'', ascii ''author'', ascii ''year'', ascii ''status'']"




section \<open>An example store\<close>

definition dune :: book where
  "dune = \<lparr>id' = PInt 7, title = PStr (ascii ''Dune''), author = PStr (ascii ''Herbert''),
           year = PInt 1965, status = PStr v_nalichii\<rparr>"

definition emma :: book where
  "emma = \<lparr>id' = PInt 8, title = PStr (ascii ''Emma''), author = PStr (ascii ''Austen''),
           year = PInt 1815, status = PStr vydana\<rparr>"

definition soul :: book where
  "soul = \<lparr>id' = PInt 9, title = PStr (ascii ''Soul Catcher''),
           author = PStr (ascii ''herbert''), year = PInt 1972, status = PStr v_nalichii\<rparr>"

definition shelf :: library where
  "shelf = \<lparr>file_path = ascii ''library.json'', books = [dune, emma, soul]\<rparr>"

text \<open>A JSON object with the five keys and values of other types than the format's.\<close>

definition odd_record :: pydict where
  "odd_record =
     [(ascii ''id'', PStr (ascii ''seven'')), (ascii ''title'', PInt 0),
      (ascii ''author'', PNone), (ascii ''year'', PStr (ascii ''abc'')),
      (ascii ''status'', PStr (ascii ''borrowed''))]"

section \<open>Persistence\<close>

lemma getitem_to_dict:
  "getitem (to_dict b) (ascii ''id'') = Inr (id' b)"
  "getitem (to_dict b) (ascii ''title'') = Inr (title b)"
  "getitem (to_dict b) (ascii ''author'') = Inr (author b)"
  "getitem (to_dict b) (ascii ''year'') = Inr (year b)"
  "getitem (to_dict b) (ascii ''status'') = Inr (status b)"
  by (simp_all add: getitem_def to_dict_def ascii_def)

lemma from_dict_to_dict: "from_dict a (EObj (to_dict b)) = Inr b"
  by (simp add: getitem_to_dict Book_def)

lemma from_dicts_to_dicts:
  "from_dicts alloc i (map (\<lambda>book. EObj (to_dict book)) bs) = Inr bs"
  by (induction bs arbitrary: i) (simp_all add: from_dict_to_dict del: from_dict.simps)

text \<open>
  C2. After \<open>save_books\<close>, a fresh load from the same path, by a new \<open>Library\<close> or by
  \<open>load_books\<close> on this one, gives the collection that was saved: the same records, with
  the same id, title, author, year and status, in the same order, whatever addresses the
  new objects get.
\<close>

theorem load_books_save_books:
  "Library alloc (file_path self) (save_books self files) = Inr self
   \<and> load_books alloc self (save_books self files) = Inr self"
  by (simp add: Library_def load_books_def save_books_def iterate_def from_dicts_to_dicts)



section \<open>Reconstruction of a record\<close>

lemma getitem_Inr: "map_of d k = Some v \<Longrightarrow> getitem d k = Inr v"
  by (simp add: getitem_def)

lemma from_dict_Inr:
  assumes "map_of data (ascii ''id'') = Some i" "map_of data (ascii ''title'') = Some t"
    "map_of data (ascii ''author'') = Some au" "map_of data (ascii ''year'') = Some y"
    "map_of data (ascii ''status'') = Some s"
  shows "from_dict a (EObj data) = Inr \<lparr>id' = i, title = t, author = au, year = y, status = s\<rparr>"
  using assms by (simp add: getitem_Inr Book_def)

lemma from_dict_missing:
  assumes "k \<in> set record_fields" "map_of data k = None"
  shows "\<exists>k'. from_dict a (EObj data) = Inl (KeyError k')"
  using assms
  by (auto simp: record_fields_def getitem_def split: option.splits)

lemma from_dict_KeyError:
  assumes "from_dict a (EObj data) = Inl e"
  shows "\<exists>k \<in> set record_fields. map_of data k = None \<and> e = KeyError k"
  using assms
  by (auto simp: record_fields_def getitem_def Let_def split: option.splits)

text \<open>
  C7, as amended. \<open>from_dict\<close> checks no shape. When the five keys are present it
  returns the record with exactly the values found, the id and the status among them,
  whatever their types and whatever address the new object has. It fails with a
  \<open>KeyError\<close> exactly when one of the five keys is missing, and with a \<open>TypeError\<close> when
  the input is not an object.
\<close>

theorem from_dict_verbatim:
  "(map_of data (ascii ''id'') = Some i \<and> map_of data (ascii ''title'') = Some t \<and>
    map_of data (ascii ''author'') = Some au \<and> map_of data (ascii ''year'') = Some y \<and>
    map_of data (ascii ''status'') = Some s \<longrightarrow>
      from_dict a (EObj data) = Inr \<lparr>id' = i, title = t, author = au, year = y, status = s\<rparr>)
   \<and> ((\<exists>k \<in> set record_fields. map_of data k = None) \<longleftrightarrow>
        (\<exists>k. from_dict a (EObj data) = Inl (KeyError k)))
   \<and> from_dict a ENotObj = Inl TypeError"
proof (intro conjI impI)
  show "from_dict a (EObj data) = Inr \<lparr>id' = i, title = t, author = au, year = y, status = s\<rparr>"
    if "map_of data (ascii ''id'') = Some i \<and> map_of data (ascii ''title'') = Some t \<and>
    map_of data (ascii ''author'') = Some au \<and> map_of data (ascii ''year'') = Some y \<and>
    map_of data (ascii ''status'') = Some s"
    using that by (intro from_dict_Inr) simp_all
  show "(\<exists>k \<in> set record_fields. map_of data k = None) \<longleftrightarrow>
        (\<exists>k. from_dict a (EObj data) = Inl (KeyError k))"
    using from_dict_missing [of _ data a] from_dict_KeyError [of a data] by blast
  show "from_dict a ENotObj = Inl TypeError" by simp
qed

theorem from_dict_verbatim_witness:
  "from_dict 4096 (EObj (to_dict dune)) = Inr dune
   \<and> from_dict 4096 (EObj [(ascii ''id'', PInt 7)]) = Inl (KeyError (ascii ''title''))"
proof -
  have 1: "from_dict 4096 (EObj (to_dict dune)) = Inr dune"
    using from_dict_verbatim [of "to_dict dune" "PInt 7" "PStr (ascii ''Dune'')"
        "PStr (ascii ''Herbert'')" "PInt 1965" "PStr v_nalichii" 4096]
    by (simp add: to_dict_def dune_def ascii_def)
  have 2: "from_dict 4096 (EObj [(ascii ''id'', PInt 7)]) = Inl (KeyError (ascii ''title''))"
    by (simp add: getitem_def ascii_def)
  from 1 2 show ?thesis by simp
qed

text \<open>
  C7 as stated fails: an object whose year is the text "abc", whose title is a number and
  whose author is null is reconstructed without any failure.
\<close>

theorem from_dict_shape_counterexample:
  "from_dict 4096 (EObj odd_record) =
     Inr \<lparr>id' = PStr (ascii ''seven''), title = PInt 0, author = PNone,
          year = PStr (ascii ''abc''), status = PStr (ascii ''borrowed'')\<rparr>"
  by (simp add: odd_record_def getitem_def ascii_def Book_def)

section \<open>Search\<close>





















section \<open>Changing the collection\<close>

lemma set_status_None:
  "set_status bid st bs = None \<longleftrightarrow> (\<forall>b \<in> set bs. \<not> py_eq_int (id' b) bid)"
  by (induction bs) auto

lemma set_status_first:
  "i < length bs \<Longrightarrow> py_eq_int (id' (bs ! i)) bid \<Longrightarrow>
   \<forall>j < i. \<not> py_eq_int (id' (bs ! j)) bid \<Longrightarrow>
   set_status bid st bs = Some (bs[i := (bs ! i)\<lparr>status := st\<rparr>])"
proof (induction bs arbitrary: i)
  case Nil
  then show ?case by simp
next
  case (Cons b bs)
  show ?case
  proof (cases i)
    case 0
    with Cons.prems show ?thesis by simp
  next
    case (Suc k)
    with Cons.prems have "\<not> py_eq_int (id' b) bid" by auto
    moreover have "set_status bid st bs = Some (bs[k := (bs ! k)\<lparr>status := st\<rparr>])"
      using Cons.prems Suc by (intro Cons.IH) auto
    ultimately show ?thesis using Suc by simp
  qed
qed





text \<open>
  C4. \<open>update_status\<close> with a status that is neither of the two status texts reports the
  invalid status and changes nothing, before any record is looked at. With a valid status
  and a record of that id, the first such record gets the new status, its other fields
  and every other record stay as they were, the collection is saved and the change is
  reported. With a valid status and no record of that id the outcome is "not found";
  the store and the file stay as they were.
\<close>

theorem update_status_cases:
  "(st \<noteq> PStr v_nalichii \<and> st \<noteq> PStr vydana \<longrightarrow>
      update_status bid st (self, files) = (InvalidStatus, self, files))
   \<and> ((st = PStr v_nalichii \<or> st = PStr vydana) \<and> i < length (books self) \<and>
       py_eq_int (id' (books self ! i)) bid \<and>
       (\<forall>j < i. \<not> py_eq_int (id' (books self ! j)) bid) \<longrightarrow>
      update_status bid st (self, files) =
        (StatusChanged,
         self\<lparr>books := (books self)[i := (books self ! i)\<lparr>status := st\<rparr>]\<rparr>,
         save_books (self\<lparr>books := (books self)[i := (books self ! i)\<lparr>status := st\<rparr>]\<rparr>) files))
   \<and> ((st = PStr v_nalichii \<or> st = PStr vydana) \<and>
       (\<forall>b \<in> set (books self). \<not> py_eq_int (id' b) bid) \<longrightarrow>
      update_status bid st (self, files) = (NotFound, self, files))"
proof (intro conjI impI)
  show "update_status bid st (self, files) = (InvalidStatus, self, files)"
    if "st \<noteq> PStr v_nalichii \<and> st \<noteq> PStr vydana"
    using that by (simp add: update_status_def)
  show "update_status bid st (self, files) =
        (StatusChanged,
         self\<lparr>books := (books self)[i := (books self ! i)\<lparr>status := st\<rparr>]\<rparr>,
         save_books (self\<lparr>books := (books self)[i := (books self ! i)\<lparr>status := st\<rparr>]\<rparr>) files)"
    if "(st = PStr v_nalichii \<or> st = PStr vydana) \<and> i < length (books self) \<and>
       py_eq_int (id' (books self ! i)) bid \<and>
       (\<forall>j < i. \<not> py_eq_int (id' (books self ! j)) bid)"
  proof -
    from that have "set_status bid st (books self) =
        Some ((books self)[i := (books self ! i)\<lparr>status := st\<rparr>])"
      by (intro set_status_first) simp_all
    with that show ?thesis by (auto simp: update_status_def Let_def)
  qed
  show "update_status bid st (self, files) = (NotFound, self, files)"
    if "(st = PStr v_nalichii \<or> st = PStr vydana) \<and>
       (\<forall>b \<in> set (books self). \<not> py_eq_int (id' b) bid)"
  proof -
    from that have "set_status bid st (books self) = None"
      by (simp add: set_status_None)
    with that show ?thesis by (auto simp: update_status_def Let_def)
  qed
qed

theorem update_status_cases_witness:
  "update_status 8 (PStr (ascii ''borrowed'')) (shelf, Map.empty) = (InvalidStatus, shelf, Map.empty)
   \<and> update_status 8 (PStr v_nalichii) (shelf, Map.empty) =
       (StatusChanged,
        shelf\<lparr>books := [dune, emma\<lparr>status := PStr v_nalichii\<rparr>, soul]\<rparr>,
        [ascii ''library.json'' \<mapsto>
           Json (DArr [EObj (to_dict dune), EObj (to_dict (emma\<lparr>status := PStr v_nalichii\<rparr>)),
                       EObj (to_dict soul)])])
   \<and> update_status 5 (PStr vydana) (shelf, Map.empty) = (NotFound, shelf, Map.empty)"
proof -
  have 1: "update_status 8 (PStr (ascii ''borrowed'')) (shelf, Map.empty) =
      (InvalidStatus, shelf, Map.empty)"
    using update_status_cases [of "PStr (ascii ''borrowed'')" 8 shelf Map.empty]
    by (simp add: v_nalichii_def vydana_def ascii_def)
  have 2: "update_status 8 (PStr v_nalichii) (shelf, Map.empty) =
       (StatusChanged,
        shelf\<lparr>books := [dune, emma\<lparr>status := PStr v_nalichii\<rparr>, soul]\<rparr>,
        [ascii ''library.json'' \<mapsto>
           Json (DArr [EObj (to_dict dune), EObj (to_dict (emma\<lparr>status := PStr v_nalichii\<rparr>)),
                       EObj (to_dict soul)])])"
    using update_status_cases [of "PStr v_nalichii" 8 shelf Map.empty 1]
    by (simp add: shelf_def dune_def emma_def save_books_def)
  have 3: "update_status 5 (PStr vydana) (shelf, Map.empty) = (NotFound, shelf, Map.empty)"
    using update_status_cases [of "PStr vydana" 5 shelf Map.empty]
    by (simp add: shelf_def dune_def emma_def soul_def)
  from 1 2 3 show ?thesis by blast
qed



text \<open>
  C8. \<open>add_book\<close> appends the new record, with the status "in stock", and the id it
  reports is the address of the new object. The addresses are the allocator's: after
  the first book is deleted its address is free again, and a second \<open>add_book\<close> that
  gets the same address reports the same id a second time. Two new records have the same
  id exactly when their objects have the same address.
\<close>

theorem add_book_reuses_identifier:
  "add_book a ttl auth yr (self, files) =
     (Added (PInt (int a)),
      self\<lparr>books := books self @
         [\<lparr>id' = PInt (int a), title = ttl, author = auth, year = yr,
           status = PStr v_nalichii\<rparr>]\<rparr>,
      save_books
        (self\<lparr>books := books self @
           [\<lparr>id' = PInt (int a), title = ttl, author = auth, year = yr,
             status = PStr v_nalichii\<rparr>]\<rparr>) files)
   \<and> (let s0 = (\<lparr>file_path = ascii ''library.json'', books = []\<rparr>, Map.empty);
          r1 = add_book 4096 (PStr (ascii ''Dune'')) (PStr (ascii ''Herbert'')) (PInt 1965) s0;
          r2 = delete_book 4096 (snd r1);
          r3 = add_book 4096 (PStr (ascii ''Emma'')) (PStr (ascii ''Austen'')) (PInt 1815) (snd r2)
      in fst r1 = Added (PInt 4096) \<and> fst r2 = Deleted \<and> books (fst (snd r2)) = [] \<and>
         fst r3 = Added (PInt 4096))
   \<and> (id' (Book a ttl auth yr) = id' (Book a' ttl' auth' yr') \<longleftrightarrow> a = a')"
  by (simp add: add_book_def delete_book_def Book_def Let_def)



end
